theory Spec2Isabelle
  imports Complex_Main "HOL-Library.AList"
begin

section \<open>Numbers and strings of the host language\<close>

text \<open>
  Python's \<open>float\<close> values are modelled as exact rationals: the scoring and trading
  rules only add, multiply, divide, compare and round to a fixed number of decimals, and
  the model keeps every one of these operations, without the representation error of
  binary floating point. Python's unbounded \<open>int\<close> is \<open>int\<close>.
\<close>

definition round_half_even :: "rat \<Rightarrow> int" where
  \<comment> \<open>the integer nearest to \<open>x\<close>, ties to the even one (Python's rounding rule)\<close>
  "round_half_even x =
     (let f = \<lfloor>x\<rfloor>; d = x - of_int f
      in if d < 1 / 2 then f
         else if 1 / 2 < d then f + 1
         else if even f then f else f + 1)"

definition py_round :: "rat \<Rightarrow> nat \<Rightarrow> rat" where
  \<comment> \<open>\<open>round(x, n)\<close>\<close>
  "py_round x n = of_int (round_half_even (x * 10 ^ n)) / 10 ^ n"

definition py_int :: "rat \<Rightarrow> int" where
  \<comment> \<open>\<open>int(x)\<close> on a float: truncation towards zero\<close>
  "py_int x = (if 0 \<le> x then \<lfloor>x\<rfloor> else \<lceil>x\<rceil>)"

definition lower_char :: "char \<Rightarrow> char" where
  "lower_char c =
     (let n = (of_char c :: nat)
      in if 65 \<le> n \<and> n \<le> 90 then char_of (n + 32) else c)"

definition str_lower :: "string \<Rightarrow> string" where
  \<comment> \<open>\<open>s.lower()\<close>\<close>
  "str_lower s = map lower_char s"

fun starts_with :: "'a list \<Rightarrow> 'a list \<Rightarrow> bool" where
  "starts_with xs [] = True"
| "starts_with [] (y # ys) = False"
| "starts_with (x # xs) (y # ys) = (x = y \<and> starts_with xs ys)"

fun str_contains :: "'a list \<Rightarrow> 'a list \<Rightarrow> bool" where
  \<comment> \<open>\<open>sub in s\<close>\<close>
  "str_contains [] sub = (sub = [])"
| "str_contains (x # xs) sub = (starts_with (x # xs) sub \<or> str_contains xs sub)"

section \<open>data/fetcher.py: the trade record\<close>

datatype date = Date (year: nat) (month: nat) (day: nat)

definition date_le :: "date \<Rightarrow> date \<Rightarrow> bool" where
  \<comment> \<open>\<open>a <= b\<close> on \<open>datetime.date\<close>: by year, then month, then day\<close>
  "date_le a b =
     (year a < year b \<or>
      (year a = year b \<and> (month a < month b \<or> (month a = month b \<and> day a \<le> day b))))"

fun digits :: "nat \<Rightarrow> nat \<Rightarrow> string" where
  \<comment> \<open>the \<open>w\<close> lowest decimal digits of \<open>n\<close>, zero padded\<close>
  "digits 0 n = []"
| "digits (Suc w) n = digits w (n div 10) @ [char_of (48 + n mod 10)]"

definition date_str :: "date \<Rightarrow> string" where
  \<comment> \<open>\<open>str(d)\<close>, the ISO form \<open>YYYY-MM-DD\<close>\<close>
  "date_str d = digits 4 (year d) @ ''-'' @ digits 2 (month d) @ ''-'' @ digits 2 (day d)"

record politician_trade =
  trade_id :: string
  politician :: string
  chamber :: string
  party :: string
  state :: string
  symbol :: string
  asset_name :: string
  trade_type :: string
  amount_low :: int
  amount_high :: int
  transaction_date :: date
  disclosure_date :: date
  filing_delay_days :: int
  is_option :: bool
  committee :: string
  trade_notes :: string

definition avg_amount :: "politician_trade \<Rightarrow> int" where
  "avg_amount t = (amount_low t + amount_high t) div 2"

definition is_late :: "politician_trade \<Rightarrow> bool" where
  "is_late t = (45 < filing_delay_days t)"

definition is_suspiciously_late :: "politician_trade \<Rightarrow> bool" where
  "is_suspiciously_late t = (90 < filing_delay_days t)"

section \<open>scoring/engine.py\<close>

definition COMMITTEE_SECTOR_MAP :: "(string \<times> string list) list" where
  "COMMITTEE_SECTOR_MAP =
     [(''Armed Services'',
         [''LMT'', ''RTX'', ''NOC'', ''BA'', ''GD'', ''HII'', ''LDOS'', ''CACI'', ''SAIC'']),
      (''Financial Services'',
         [''JPM'', ''BAC'', ''GS'', ''MS'', ''V'', ''MA'', ''SQ'', ''PYPL'']),
      (''Banking'', [''JPM'', ''BAC'', ''WFC'', ''C'', ''USB'', ''PNC'']),
      (''Energy and Commerce'', [''UNH'', ''CVS'', ''CI'', ''HUM'', ''CNC'']),
      (''Science, Space, and Technology'',
         [''NVDA'', ''AMD'', ''INTC'', ''MSFT'', ''GOOGL'', ''META'']),
      (''Energy'', [''XOM'', ''CVX'', ''COP'', ''SLB'', ''HAL'', ''EOG'']),
      (''Agriculture'', [''DE'', ''ADM'', ''BG'', ''MOS'', ''NTR''])]"

text \<open>
  The reason strings are f-strings with emoji; a reason is modelled by one constructor per
  f-string of the source, carrying the values the f-string interpolates.
\<close>

datatype reason =
    SaleIgnored
  | MegaTrade int
  | LargeTrade int
  | MediumTrade int
  | SmallTrade int
  | OptionBought
  | SuspiciouslyLate int
  | LateFiling int
  | CommitteeMatch string
  | ClusterCount nat string
  | ClusterPoliticians "string list"
  | ClusterTotal int
  | KnownPolitician string rat

definition is_purchase :: "politician_trade \<Rightarrow> bool" where
  \<comment> \<open>\<open>"purchase" in trade.trade_type.lower()\<close>\<close>
  "is_purchase t = str_contains (str_lower (trade_type t)) ''purchase''"

definition committee_match :: "politician_trade \<Rightarrow> bool" where
  \<comment> \<open>\<open>trade.committee and trade.symbol in COMMITTEE_SECTOR_MAP.get(trade.committee, [])\<close>\<close>
  "committee_match t =
     (committee t \<noteq> [] \<and>
      symbol t \<in> set (case map_of COMMITTEE_SECTOR_MAP (committee t) of
                         None \<Rightarrow> [] | Some syms \<Rightarrow> syms))"

definition TradeScorer_score :: "politician_trade \<Rightarrow> rat \<times> reason list" where
  "TradeScorer_score t =
     (if \<not> is_purchase t then (0, [SaleIgnored])
      else
        let (pts, reasons) =
              (if 1000000 \<le> avg_amount t then (15, [MegaTrade (avg_amount t)])
               else if 250000 \<le> avg_amount t then (10, [LargeTrade (avg_amount t)])
               else if 50000 \<le> avg_amount t then (5, [MediumTrade (avg_amount t)])
               else (2, [SmallTrade (avg_amount t)]));
            (pts, reasons) =
              (if is_option t then (pts + 8, reasons @ [OptionBought]) else (pts, reasons));
            (pts, reasons) =
              (if is_suspiciously_late t
                 then (pts + 7, reasons @ [SuspiciouslyLate (filing_delay_days t)])
               else if is_late t
                 then (pts + 4, reasons @ [LateFiling (filing_delay_days t)])
               else (pts, reasons));
            (pts, reasons) =
              (if committee_match t
                 then (pts + 10, reasons @ [CommitteeMatch (committee t)])
               else (pts, reasons))
        in (min pts 40, reasons))"

subsection \<open>The reference definition of the trade score\<close>

definition contains_ci :: "string \<Rightarrow> string \<Rightarrow> bool" where
  \<comment> \<open>\<open>sub\<close> occurs in \<open>s\<close> as a substring, letter case ignored\<close>
  "contains_ci s sub = (\<exists>pre mid post. s = pre @ mid @ post \<and> str_lower mid = str_lower sub)"

definition size_bonus :: "int \<Rightarrow> rat" where
  "size_bonus a =
     (if 1000000 \<le> a then 15 else if 250000 \<le> a then 10 else if 50000 \<le> a then 5 else 2)"

definition option_bonus :: "bool \<Rightarrow> rat" where
  "option_bonus b = (if b then 8 else 0)"

definition delay_bonus :: "int \<Rightarrow> rat" where
  "delay_bonus d = (if 90 < d then 7 else if 45 < d then 4 else 0)"

definition committee_bonus :: "string \<Rightarrow> string \<Rightarrow> rat" where
  "committee_bonus c s =
     (case map_of COMMITTEE_SECTOR_MAP c of
        None \<Rightarrow> 0
      | Some syms \<Rightarrow> if s \<in> set syms then 10 else 0)"

definition trade_score_reference :: "politician_trade \<Rightarrow> rat" where
  "trade_score_reference t =
     (if contains_ci (trade_type t) ''purchase''
      then min (size_bonus ((amount_low t + amount_high t) div 2) + option_bonus (is_option t)
                + delay_bonus (filing_delay_days t) + committee_bonus (committee t) (symbol t)) 40
      else 0)"

subsection \<open>PoliticianScorer\<close>

record profile =
  historical_alpha :: "rat option"
  sectors :: "string list"
  trust_score :: int
  late_filer :: bool
  profile_notes :: "string option"

definition POLITICIAN_PROFILES :: "(string \<times> profile) list" where
  "POLITICIAN_PROFILES =
     [(''Nancy Pelosi'',
         \<lparr>historical_alpha = Some (92 / 100), sectors = [''tech'', ''pharma''],
          trust_score = 95, late_filer = False,
          profile_notes = Some ''Ektefelles handler''\<rparr>),
      (''Dan Crenshaw'',
         \<lparr>historical_alpha = Some (71 / 100), sectors = [''defense'', ''energy''],
          trust_score = 72, late_filer = True, profile_notes = None\<rparr>),
      (''Tommy Tuberville'',
         \<lparr>historical_alpha = Some (68 / 100), sectors = [''defense''],
          trust_score = 70, late_filer = True,
          profile_notes = Some ''Armed Services''\<rparr>),
      (''Josh Gottheimer'',
         \<lparr>historical_alpha = Some (65 / 100), sectors = [''fintech'', ''banking''],
          trust_score = 65, late_filer = False, profile_notes = None\<rparr>),
      (''Michael McCaul'',
         \<lparr>historical_alpha = Some (60 / 100), sectors = [''tech'', ''defense''],
          trust_score = 62, late_filer = True, profile_notes = None\<rparr>)]"

definition late_count :: "string \<Rightarrow> politician_trade list \<Rightarrow> nat" where
  \<comment> \<open>\<open>sum(1 for t in trades_history if t.is_late and t.politician == politician)\<close>\<close>
  "late_count pol trades_history =
     length (filter (\<lambda>t. is_late t \<and> politician t = pol) trades_history)"

definition PoliticianScorer_score :: "string \<Rightarrow> politician_trade list \<Rightarrow> rat" where
  "PoliticianScorer_score pol trades_history =
     (let pts = 0;
          pts = (case map_of POLITICIAN_PROFILES pol of
                   None \<Rightarrow> pts
                 | Some prof \<Rightarrow>
                     let alpha = (case historical_alpha prof of None \<Rightarrow> 1 / 2 | Some a \<Rightarrow> a)
                     in pts + alpha * 35);
          pts = (if 5 < late_count pol trades_history then pts + 5 else pts)
      in min pts 40)"

subsection \<open>ClusterDetector\<close>

record cluster =
  count :: nat
  politicians :: "string list"
  total_amount :: int
  trades :: "politician_trade list"
  score :: int

definition recent_purchases :: "politician_trade list \<Rightarrow> date \<Rightarrow> politician_trade list" where
  \<comment> \<open>the lists \<open>purchases\<close> and then \<open>recent\<close> of \<open>detect_clusters\<close>\<close>
  "recent_purchases ts cutoff =
     (let purchases = filter is_purchase ts
      in filter (\<lambda>t. date_le cutoff (transaction_date t)) purchases)"

definition group_step ::
  "(string \<times> politician_trade list) list \<Rightarrow> politician_trade
     \<Rightarrow> (string \<times> politician_trade list) list" where
  \<comment> \<open>\<open>clusters[trade.symbol].append(trade)\<close> on a \<open>defaultdict(list)\<close>\<close>
  "group_step clusters t =
     AList.update (symbol t)
       ((case map_of clusters (symbol t) of None \<Rightarrow> [] | Some ts \<Rightarrow> ts) @ [t]) clusters"

definition cluster_step ::
  "(string \<times> cluster) list \<Rightarrow> string \<times> politician_trade list \<Rightarrow> (string \<times> cluster) list" where
  \<comment> \<open>one round of the loop over \<open>clusters.items()\<close>; the set of names is listed without
      repetition, in an order Python leaves open\<close>
  "cluster_step result item =
     (case item of (symb, symbol_trades) \<Rightarrow>
        let unique_politicians = remdups (map politician symbol_trades)
        in if 2 \<le> length unique_politicians
           then AList.update symb
                  (\<lparr>count = length unique_politicians,
                    politicians = unique_politicians,
                    total_amount = sum_list (map avg_amount symbol_trades),
                    trades = symbol_trades,
                    score = min (int (length unique_politicians) * 8) 20\<rparr>) result
           else result)"

definition detect_clusters :: "politician_trade list \<Rightarrow> date \<Rightarrow> (string \<times> cluster) list" where
  \<comment> \<open>\<open>cutoff\<close> is \<open>date.today() - timedelta(days=window_days)\<close>, read from the clock\<close>
  "detect_clusters ts cutoff =
     (let recent = recent_purchases ts cutoff;
          clusters = foldl group_step [] recent
      in foldl cluster_step [] clusters)"

definition score_for_symbol :: "string \<Rightarrow> (string \<times> cluster) list \<Rightarrow> rat \<times> reason list" where
  "score_for_symbol symb clusters =
     (case map_of clusters symb of
        None \<Rightarrow> (0, [])
      | Some c \<Rightarrow>
          (of_int (score c),
           [ClusterCount (count c) symb,
            ClusterPoliticians (take 5 (politicians c)),
            ClusterTotal (total_amount c)]))"

subsection \<open>SignalEngine\<close>

record trade_signal =
  trade :: politician_trade
  total_score :: rat
  politician_score :: rat
  trade_score :: rat
  cluster_score :: rat
  recommendation :: string
  reasons :: "reason list"
  urgency :: string
  suggested_position_size :: string

definition MIN_SCORE_FOR_SIGNAL :: rat where
  "MIN_SCORE_FOR_SIGNAL = 40"

definition dedup_key :: "politician_trade \<Rightarrow> string" where
  \<comment> \<open>\<open>f"{trade.symbol}_{trade.transaction_date}"\<close>\<close>
  "dedup_key t = symbol t @ ''_'' @ date_str (transaction_date t)"

definition tier_of :: "rat \<Rightarrow> (string \<times> string \<times> string) option" where
  \<comment> \<open>the \<open>if/elif/else\<close> chain choosing recommendation, urgency and size; \<open>None\<close> is its
      final \<open>continue\<close>\<close>
  "tier_of tot =
     (if 80 \<le> tot then Some (''STRONG BUY'', ''IMMEDIATE'', ''FULL'')
      else if 65 \<le> tot then Some (''BUY'', ''TODAY'', ''HALF'')
      else if 40 \<le> tot then Some (''WATCH'', ''THIS_WEEK'', ''QUARTER'')
      else None)"

definition score_trade ::
  "politician_trade list \<Rightarrow> (string \<times> cluster) list \<Rightarrow> politician_trade
     \<Rightarrow> trade_signal option" where
  \<comment> \<open>the body of the loop of \<open>generate_signals\<close> after the purchase and duplicate checks;
      \<open>None\<close> where the body ends in \<open>continue\<close>\<close>
  "score_trade all_history clusters t =
     (let pol_score = PoliticianScorer_score (politician t) all_history;
          (trade_pts, trade_reasons) = TradeScorer_score t;
          (cluster_pts, cluster_reasons) = score_for_symbol (symbol t) clusters;
          tot = pol_score + trade_pts + cluster_pts;
          all_reasons = trade_reasons @ cluster_reasons;
          all_reasons = (if 0 < pol_score
                         then KnownPolitician (politician t) pol_score # all_reasons
                         else all_reasons)
      in if tot < MIN_SCORE_FOR_SIGNAL then None
         else case tier_of tot of
                None \<Rightarrow> None
              | Some (recm, urg, size_tag) \<Rightarrow>
                  Some \<lparr>trade = t,
                        total_score = py_round tot 1,
                        politician_score = py_round pol_score 1,
                        trade_score = py_round trade_pts 1,
                        cluster_score = py_round cluster_pts 1,
                        recommendation = recm,
                        reasons = all_reasons,
                        urgency = urg,
                        suggested_position_size = size_tag\<rparr>)"

fun signals_loop ::
  "politician_trade list \<Rightarrow> (string \<times> cluster) list \<Rightarrow> politician_trade list
     \<Rightarrow> string set \<Rightarrow> trade_signal list" where
  \<comment> \<open>the loop over \<open>trades\<close>, from the set \<open>seen_symbols\<close>; the result lists the signals in
      the order the loop appends them\<close>
  "signals_loop all_history clusters [] seen = []"
| "signals_loop all_history clusters (t # ts) seen =
     (if \<not> is_purchase t then signals_loop all_history clusters ts seen
      else if dedup_key t \<in> seen then signals_loop all_history clusters ts seen
      else case score_trade all_history clusters t of
             None \<Rightarrow> signals_loop all_history clusters ts (insert (dedup_key t) seen)
           | Some s \<Rightarrow> s # signals_loop all_history clusters ts (insert (dedup_key t) seen))"

definition sort_reverse :: "('a \<Rightarrow> rat) \<Rightarrow> 'a list \<Rightarrow> 'a list" where
  \<comment> \<open>\<open>xs.sort(key=key, reverse=True)\<close>: descending by key, equal keys in their old order\<close>
  "sort_reverse key xs = sort_key (\<lambda>x. - key x) xs"

definition generate_signals ::
  "politician_trade list \<Rightarrow> politician_trade list \<Rightarrow> date \<Rightarrow> trade_signal list" where
  \<comment> \<open>\<open>cutoff\<close> is the clock reading \<open>detect_clusters\<close> takes with its default window\<close>
  "generate_signals ts all_history cutoff =
     (let clusters = detect_clusters all_history cutoff;
          signals = signals_loop all_history clusters ts {}
      in sort_reverse total_score signals)"

section \<open>execution/trader.py\<close>

definition SIZE_MULTIPLIERS :: "(string \<times> rat) list" where
  "SIZE_MULTIPLIERS = [(''FULL'', 1), (''HALF'', 1 / 2), (''QUARTER'', 1 / 4)]"

record executed_trade =
  signal :: trade_signal
  shares :: int
  entry_price :: rat
  stop_loss :: rat
  take_profit :: rat
  order_id :: string
  timestamp :: string
  mode :: string
  pnl :: rat
  is_open :: bool

text \<open>
  The trader object: the dictionary \<open>_positions\<close> keeps insertion order, which
  \<open>update_positions\<close> follows, so it is an association list.
\<close>

record trader =
  paper :: bool
  positions :: "(string \<times> executed_trade) list"
  history :: "executed_trade list"
  equity :: rat

text \<open>
  What a call reads from outside the trader: the price source behind \<open>_get_price\<close>
  (\<open>None\<close> when it has no price), the broker behind \<open>_submit_order\<close> (\<open>None\<close> when the
  call raises), the identifier drawn for a paper order, and the clock.
\<close>

record environment =
  get_price :: "string \<Rightarrow> rat option"
  submit_order :: "string \<Rightarrow> int \<Rightarrow> rat \<Rightarrow> string option"
  paper_order_id :: string
  utcnow :: string

datatype error = ZeroDivisionError | BrokerError

datatype log_event =
    LogMaxPositions string
  | LogDuplicate string
  | LogBuy bool int string rat rat rat rat
  | LogClosed string string rat

definition MAX_POSITIONS :: nat where
  "MAX_POSITIONS = 5"

definition RISK_PER_TRADE_PCT :: rat where
  "RISK_PER_TRADE_PCT = 2 / 100"

definition STOP_LOSS_PCT :: rat where
  "STOP_LOSS_PCT = 8 / 100"

definition TAKE_PROFIT_PCT :: rat where
  "TAKE_PROFIT_PCT = 20 / 100"

definition TRAILING_STOP_PCT :: rat where
  "TRAILING_STOP_PCT = 12 / 100"

definition size_multiplier :: "string \<Rightarrow> rat" where
  \<comment> \<open>\<open>SIZE_MULTIPLIERS.get(signal.suggested_position_size, 0.25)\<close>\<close>
  "size_multiplier tag = (case map_of SIZE_MULTIPLIERS tag of None \<Rightarrow> 1 / 4 | Some m \<Rightarrow> m)"

definition risk_dollars :: "rat \<Rightarrow> string \<Rightarrow> rat" where
  \<comment> \<open>\<open>self._equity * self.RISK_PER_TRADE_PCT * multiplier\<close>\<close>
  "risk_dollars eq tag = eq * RISK_PER_TRADE_PCT * size_multiplier tag"

definition execute_signal ::
  "environment \<Rightarrow> trader \<Rightarrow> trade_signal
     \<Rightarrow> error + (executed_trade option \<times> trader \<times> log_event list)" where
  "execute_signal env s sig =
     (let symb = symbol (trade sig)
      in if MAX_POSITIONS \<le> length (positions s)
           then Inr (None, s, [LogMaxPositions symb])
         else if symb \<in> fst ` set (positions s)
           then Inr (None, s, [LogDuplicate symb])
         else case get_price env symb of
           None \<Rightarrow> Inr (None, s, [])
         | Some price \<Rightarrow>
             if price = 0 then Inr (None, s, [])
             else
               let risk = risk_dollars (equity s) (suggested_position_size sig);
                   sl = py_round (price * (1 - STOP_LOSS_PCT)) 4;
                   tp = py_round (price * (1 + TAKE_PROFIT_PCT)) 4;
                   per_share_risk = price - sl
               in if per_share_risk = 0 then Inl ZeroDivisionError
                  else
                    let n = max 1 (py_int (risk / per_share_risk));
                        max_shares = py_int ((equity s * (10 / 100)) / price);
                        n = min n max_shares;
                        buy = LogBuy (paper s) n symb price sl tp (total_score sig)
                    in case (if \<not> paper s then submit_order env symb n price
                             else Some (paper_order_id env)) of
                         None \<Rightarrow> Inl BrokerError
                       | Some oid \<Rightarrow>
                           let t = \<lparr>signal = sig, shares = n, entry_price = price,
                                    stop_loss = sl, take_profit = tp, order_id = oid,
                                    timestamp = utcnow env,
                                    mode = (if paper s then ''paper'' else ''live''),
                                    pnl = 0, is_open = True\<rparr>;
                               s1 = s\<lparr>positions := AList.update symb t (positions s)\<rparr>;
                               s2 = (if \<not> paper s
                                     then s1\<lparr>equity := equity s1 - of_int n * price\<rparr>
                                     else s1)
                           in Inr (Some t, s2, [buy]))"

definition tick_price :: "(string \<Rightarrow> rat option) \<Rightarrow> string \<Rightarrow> executed_trade \<Rightarrow> rat" where
  \<comment> \<open>\<open>current_prices.get(symbol, trade.entry_price)\<close>\<close>
  "tick_price current_prices symb t =
     (case current_prices symb of None \<Rightarrow> entry_price t | Some p \<Rightarrow> p)"

definition trail :: "rat \<Rightarrow> executed_trade \<Rightarrow> executed_trade" where
  \<comment> \<open>the trailing-stop update at price \<open>price\<close>\<close>
  "trail price t =
     (let new_sl = price * (1 - TRAILING_STOP_PCT)
      in if stop_loss t < new_sl then t\<lparr>stop_loss := py_round new_sl 4\<rparr> else t)"

definition exit_reason :: "rat \<Rightarrow> executed_trade \<Rightarrow> string option" where
  "exit_reason price t =
     (if price \<le> stop_loss t then Some ''stop_loss''
      else if take_profit t \<le> price then Some ''take_profit''
      else None)"

definition update_step ::
  "(string \<Rightarrow> rat option) \<Rightarrow> string list \<times> trader \<times> log_event list
     \<Rightarrow> string \<times> executed_trade \<Rightarrow> string list \<times> trader \<times> log_event list" where
  \<comment> \<open>one round of the loop of \<open>update_positions\<close>; the record of the position is changed
      in place, so the dictionary sees the new stop\<close>
  "update_step current_prices acc item =
     (case acc of (closed_syms, s, logs) \<Rightarrow>
      case item of (symb, t0) \<Rightarrow>
        let price = tick_price current_prices symb t0;
            t1 = trail price t0
        in case exit_reason price t1 of
             None \<Rightarrow> (closed_syms, s\<lparr>positions := AList.update symb t1 (positions s)\<rparr>, logs)
           | Some why \<Rightarrow>
               let profit = (price - entry_price t1) * of_int (shares t1);
                   t2 = t1\<lparr>pnl := py_round profit 2, is_open := False\<rparr>
               in (closed_syms @ [symb],
                   s\<lparr>equity := equity s + price * of_int (shares t2),
                     history := history s @ [t2],
                     positions := AList.delete symb (positions s)\<rparr>,
                   logs @ [LogClosed symb why profit]))"

definition update_positions ::
  "trader \<Rightarrow> (string \<Rightarrow> rat option) \<Rightarrow> string list \<times> trader \<times> log_event list" where
  \<comment> \<open>the loop runs over \<open>list(self._positions.items())\<close>, the positions at the call\<close>
  "update_positions s current_prices =
     foldl (update_step current_prices) ([], s, []) (positions s)"

fun run_updates :: "trader \<Rightarrow> (string \<Rightarrow> rat option) list \<Rightarrow> trader" where
  \<comment> \<open>a sequence of \<open>update_positions\<close> calls, one per price map\<close>
  "run_updates s [] = s"
| "run_updates s (m # ms) = run_updates (fst (snd (update_positions s m))) ms"

definition new_trader :: "bool \<Rightarrow> rat \<Rightarrow> trader" where
  \<comment> \<open>\<open>PolitibotTrader(cfg, paper)\<close> with \<open>cfg["initial_capital"]\<close>\<close>
  "new_trader is_paper initial_capital =
     \<lparr>paper = is_paper, positions = [], history = [], equity = initial_capital\<rparr>"

inductive reachable :: "trader \<Rightarrow> bool" where
  \<comment> \<open>the trader objects the class can produce: constructed, connected (which reads the
      account equity), and then driven by its two operations\<close>
  reachable_new: "reachable (new_trader is_paper initial_capital)"
| reachable_connect: "reachable s \<Longrightarrow> positions s = [] \<Longrightarrow> reachable (s\<lparr>equity := e\<rparr>)"
| reachable_execute:
    "reachable s \<Longrightarrow> execute_signal env s sig = Inr (r, s', logs) \<Longrightarrow> reachable s'"
| reachable_update:
    "reachable s \<Longrightarrow> update_positions s current_prices = (closed_syms, s', logs) \<Longrightarrow> reachable s'"

section \<open>main.py: the sizing line of PaperTrader.try\_buy\<close>

definition try_buy_risk :: "rat \<Rightarrow> string \<Rightarrow> rat" where
  \<comment> \<open>\<open>self.cash * 0.02 * {"FULL": 1.0, "HALF": 0.5, "QUARTER": 0.25}.get(signal.size, 0.5)\<close>\<close>
  "try_buy_risk cash tag =
     cash * (2 / 100) *
       (case map_of [(''FULL'', 1), (''HALF'', 1 / 2), (''QUARTER'', 1 / 4)] tag of
          None \<Rightarrow> 1 / 2 | Some m \<Rightarrow> m)"

section \<open>Example inputs\<close>

definition pelosi_nvda :: politician_trade where
  "pelosi_nvda =
     \<lparr>trade_id = ''a1b2c3d4e5f6'', politician = ''Nancy Pelosi'', chamber = ''house'',
      party = ''Democrat'', state = ''CA'', symbol = ''NVDA'', asset_name = ''NVIDIA'',
      trade_type = ''Purchase'', amount_low = 1000001, amount_high = 5000000,
      transaction_date = Date 2026 10 20, disclosure_date = Date 2026 10 30,
      filing_delay_days = 10, is_option = True,
      committee = ''Science, Space, and Technology'', trade_notes = []\<rparr>"

definition pelosi_sale :: politician_trade where
  "pelosi_sale = pelosi_nvda\<lparr>trade_type := ''Sale (Full)''\<rparr>"

definition jane_late_history :: "politician_trade list" where
  \<comment> \<open>six late filings of a politician without a profile\<close>
  "jane_late_history =
     replicate 6 (pelosi_nvda\<lparr>politician := ''Jane Doe'', filing_delay_days := 60\<rparr>)"

section \<open>Reference definitions of the politician score\<close>

definition alpha_points :: "string \<Rightarrow> rat" where
  \<comment> \<open>\<open>historical_alpha\<close> times 35 for a name in the profile table, 0 for any other\<close>
  "alpha_points pol =
     (case map_of POLITICIAN_PROFILES pol of
        None \<Rightarrow> 0
      | Some prof \<Rightarrow> the (historical_alpha prof) * 35)"

definition late_filer_bonus :: "string \<Rightarrow> politician_trade list \<Rightarrow> rat" where
  \<comment> \<open>a flat 5 when more than five of the politician's trades were filed after 45 days\<close>
  "late_filer_bonus pol hist =
     (if 5 < length (filter (\<lambda>t. politician t = pol \<and> 45 < filing_delay_days t) hist)
      then 5 else 0)"

definition nvda_signal :: trade_signal where
  \<comment> \<open>the signal \<open>generate_signals\<close> gives for \<open>pelosi_nvda\<close> alone\<close>
  "nvda_signal =
     \<lparr>trade = pelosi_nvda, total_score = 326 / 5, politician_score = 161 / 5,
      trade_score = 33, cluster_score = 0, recommendation = ''BUY'', reasons = [],
      urgency = ''TODAY'', suggested_position_size = ''HALF''\<rparr>"

definition signal_for :: "string \<Rightarrow> trade_signal" where
  "signal_for symb = nvda_signal\<lparr>trade := pelosi_nvda\<lparr>symbol := symb\<rparr>\<rparr>"

definition fixed_env :: "rat option \<Rightarrow> environment" where
  \<comment> \<open>a price source that answers \<open>p\<close> for every symbol\<close>
  "fixed_env p =
     \<lparr>get_price = (\<lambda>_. p), submit_order = (\<lambda>_ _ _. Some ''broker-1''),
      paper_order_id = ''paper-0a1b2c3d'', utcnow = ''2026-11-03T12:00:00''\<rparr>"

fun open_all :: "environment \<Rightarrow> trader \<Rightarrow> trade_signal list \<Rightarrow> trader" where
  \<comment> \<open>\<open>execute_signal\<close> on each signal in turn\<close>
  "open_all env s [] = s"
| "open_all env s (sig # sigs) =
     (case execute_signal env s sig of
        Inl _ \<Rightarrow> open_all env s sigs
      | Inr (_, s', _) \<Rightarrow> open_all env s' sigs)"

definition full_trader :: trader where
  \<comment> \<open>five positions open\<close>
  "full_trader =
     open_all (fixed_env (Some 100)) (new_trader True 100000)
       (map signal_for [''AAPL'', ''MSFT'', ''GOOGL'', ''AMD'', ''META''])"

definition opened_trader :: trader where
  \<comment> \<open>one position, NVDA bought at 100\<close>
  "opened_trader = open_all (fixed_env (Some 100)) (new_trader True 100000) [nvda_signal]"

definition trailed_trader :: trader where
  \<comment> \<open>and then a tick at 119, which trails the stop to 104.72\<close>
  "trailed_trader = fst (snd (update_positions opened_trader [''NVDA'' \<mapsto> 119]))"

definition small_trader :: trader where
  "small_trader = new_trader True 1000"

section \<open>Reference definitions of the cluster map\<close>

definition buyers :: "politician_trade list \<Rightarrow> date \<Rightarrow> string \<Rightarrow> string set" where
  \<comment> \<open>the politicians with a purchase-type trade in the symbol dated on or after \<open>cutoff\<close>\<close>
  "buyers hist cutoff symb =
     {politician t | t. t \<in> set hist \<and> contains_ci (trade_type t) ''purchase''
        \<and> symbol t = symb \<and> date_le cutoff (transaction_date t)}"

definition buyers_in_window ::
  "politician_trade list \<Rightarrow> date \<Rightarrow> date \<Rightarrow> string \<Rightarrow> string set" where
  \<comment> \<open>the same with the window closed at \<open>today\<close>: dates in \<open>[today - window, today]\<close>\<close>
  "buyers_in_window hist cutoff today symb =
     {politician t | t. t \<in> set hist \<and> contains_ci (trade_type t) ''purchase''
        \<and> symbol t = symb \<and> date_le cutoff (transaction_date t)
        \<and> date_le (transaction_date t) today}"

definition cluster_record :: "politician_trade list \<Rightarrow> cluster" where
  \<comment> \<open>the entry \<open>cluster_step\<close> stores for the trades of one symbol\<close>
  "cluster_record symbol_trades =
     \<lparr>count = length (remdups (map politician symbol_trades)),
      politicians = remdups (map politician symbol_trades),
      total_amount = sum_list (map avg_amount symbol_trades),
      trades = symbol_trades,
      score = min (int (length (remdups (map politician symbol_trades))) * 8) 20\<rparr>"

definition future_history :: "politician_trade list" where
  \<comment> \<open>two purchases of NVDA by two politicians, dated 2026-11-04\<close>
  "future_history =
     [pelosi_nvda\<lparr>transaction_date := Date 2026 11 4\<rparr>,
      pelosi_nvda\<lparr>politician := ''Dan Crenshaw'', transaction_date := Date 2026 11 4\<rparr>]"

definition cluster_history :: "politician_trade list" where
  \<comment> \<open>two purchases of NVDA by two politicians, dated 2026-10-20\<close>
  "cluster_history = [pelosi_nvda, pelosi_nvda\<lparr>politician := ''Dan Crenshaw''\<rparr>]"

definition same_day_batch :: "politician_trade list" where
  \<comment> \<open>a sale and two purchases of NVDA, all dated 2026-10-20\<close>
  "same_day_batch =
     [pelosi_sale, pelosi_nvda, pelosi_nvda\<lparr>politician := ''Dan Crenshaw''\<rparr>]"

definition score_grid :: "rat set" where
  \<comment> \<open>the values a total can take: an integer plus one of the fractions the profile table
      gives (0.92, 0.71, 0.68, 0.65 and 0.60 times 35)\<close>
  "score_grid = {of_int q + f | q f. f \<in> {0, 1 / 5, 3 / 4, 4 / 5, 17 / 20}}"

definition tier_batch :: "politician_trade list" where
  \<comment> \<open>purchases of four symbols by Nancy Pelosi, in feed order\<close>
  "tier_batch =
     [pelosi_nvda\<lparr>symbol := ''AAPL''\<rparr>, pelosi_nvda\<lparr>symbol := ''MSFT''\<rparr>, pelosi_nvda,
      pelosi_nvda\<lparr>symbol := ''AMD''\<rparr>]"

section \<open>Properties\<close>

lemma starts_with_iff: "starts_with xs ys \<longleftrightarrow> (\<exists>zs. xs = ys @ zs)"
  by (induction xs ys rule: starts_with.induct) auto

lemma str_contains_iff: "str_contains xs sub \<longleftrightarrow> (\<exists>pre post. xs = pre @ sub @ post)"
proof (induction xs)
  case Nil
  then show ?case by auto
next
  case (Cons x xs)
  show ?case
  proof
    assume "str_contains (x # xs) sub"
    then consider "starts_with (x # xs) sub" | "str_contains xs sub" by auto
    then show "\<exists>pre post. x # xs = pre @ sub @ post"
    proof cases
      case 1
      then obtain zs where "x # xs = sub @ zs" by (auto simp: starts_with_iff)
      then have "x # xs = [] @ sub @ zs" by simp
      then show ?thesis by blast
    next
      case 2
      then obtain pre post where "xs = pre @ sub @ post" using Cons.IH by auto
      then have "x # xs = (x # pre) @ sub @ post" by simp
      then show ?thesis by blast
    qed
  next
    assume "\<exists>pre post. x # xs = pre @ sub @ post"
    then obtain pre post where eq: "x # xs = pre @ sub @ post" by auto
    show "str_contains (x # xs) sub"
    proof (cases pre)
      case Nil
      with eq have "starts_with (x # xs) sub" by (auto simp: starts_with_iff)
      then show ?thesis by simp
    next
      case (Cons p pre')
      with eq have "xs = pre' @ sub @ post" by simp
      then have "str_contains xs sub" using Cons.IH by blast
      then show ?thesis by simp
    qed
  qed
qed

lemma str_lower_purchase: "str_lower ''purchase'' = ''purchase''"
  by (simp add: str_lower_def lower_char_def)

lemma map_infix_iff:
  "(\<exists>pre post. map f s = pre @ p @ post) \<longleftrightarrow>
   (\<exists>pre mid post. s = pre @ mid @ post \<and> map f mid = p)"
proof
  assume "\<exists>pre post. map f s = pre @ p @ post"
  then obtain pre post where eq: "map f s = pre @ p @ post" by auto
  define c where "c = take (length p) (drop (length pre) s)"
  have "map f c = take (length p) (drop (length pre) (map f s))"
    by (simp add: c_def take_map drop_map)
  then have "map f c = p" by (simp add: eq)
  moreover have "s = take (length pre) s @ c @ drop (length p) (drop (length pre) s)"
    unfolding c_def by (simp only: append_take_drop_id)
  ultimately show "\<exists>pre mid post. s = pre @ mid @ post \<and> map f mid = p"
    by blast
next
  assume "\<exists>pre mid post. s = pre @ mid @ post \<and> map f mid = p"
  then obtain pre mid post where "s = pre @ mid @ post" "map f mid = p"
    by auto
  then have "map f s = map f pre @ p @ map f post"
    by simp
  then show "\<exists>pre post. map f s = pre @ p @ post" by blast
qed

lemma is_purchase_iff: "is_purchase t \<longleftrightarrow> contains_ci (trade_type t) ''purchase''"
  unfolding is_purchase_def contains_ci_def str_contains_iff str_lower_purchase
  unfolding str_lower_def by (rule map_infix_iff)

lemma committee_match_bonus:
  "committee_bonus (committee t) (symbol t) = (if committee_match t then 10 else 0)"
  by (simp add: committee_bonus_def committee_match_def COMMITTEE_SECTOR_MAP_def
      split: option.splits)

text \<open>
  C3: the trade score is the reference definition: a trade whose type does not contain
  "purchase" (case ignored) scores 0 with the single sale reason; a purchase scores the
  sum of its size tier, option, filing-delay and committee bonuses, capped at 40; the
  score lies between 0 and 40.
\<close>

theorem TradeScorer_score_reference:
  "fst (TradeScorer_score t) = trade_score_reference t
   \<and> (\<not> contains_ci (trade_type t) ''purchase'' \<longrightarrow> TradeScorer_score t = (0, [SaleIgnored]))
   \<and> 0 \<le> fst (TradeScorer_score t) \<and> fst (TradeScorer_score t) \<le> 40"
  unfolding is_purchase_iff [symmetric] trade_score_reference_def committee_match_bonus
  by (simp add: TradeScorer_score_def size_bonus_def option_bonus_def delay_bonus_def
      avg_amount_def is_late_def is_suspiciously_late_def)

theorem TradeScorer_score_reference_witness:
  "\<not> contains_ci (trade_type pelosi_sale) ''purchase''
   \<and> TradeScorer_score pelosi_sale = (0, [SaleIgnored])
   \<and> fst (TradeScorer_score pelosi_nvda) = 33 \<and> trade_score_reference pelosi_nvda = 33"
proof -
  have h: "\<not> contains_ci (trade_type pelosi_sale) ''purchase''"
    unfolding is_purchase_iff [symmetric] by code_simp
  have "fst (TradeScorer_score pelosi_nvda) = 33" by code_simp
  with h TradeScorer_score_reference [of pelosi_sale] TradeScorer_score_reference [of pelosi_nvda]
  show ?thesis by simp
qed

lemma late_count_filter:
  "late_count pol hist =
     length (filter (\<lambda>t. politician t = pol \<and> 45 < filing_delay_days t) hist)"
  unfolding late_count_def is_late_def by (rule arg_cong [where f = length]) (rule filter_cong, auto)

lemma alpha_points_bounds: "0 \<le> alpha_points pol \<and> alpha_points pol \<le> 35"
  by (simp add: alpha_points_def POLITICIAN_PROFILES_def)

lemma PoliticianScorer_score_eq:
  "PoliticianScorer_score pol hist = min (alpha_points pol + late_filer_bonus pol hist) 40"
  unfolding PoliticianScorer_score_def late_count_filter late_filer_bonus_def alpha_points_def
  by (simp add: POLITICIAN_PROFILES_def)

text \<open>
  C7: the politician score is \<open>min(s, 40)\<close>, where \<open>s\<close> is the table's
  \<open>historical_alpha\<close> times 35 (0 for a name outside the table) plus a flat 5 when more
  than five of the politician's trades in the history have a filing delay over 45 days; a
  name outside the table scores exactly its late-filer bonus; the score lies between 0
  and 40.
\<close>

theorem PoliticianScorer_score_reference:
  "PoliticianScorer_score pol hist = min (alpha_points pol + late_filer_bonus pol hist) 40
   \<and> (map_of POLITICIAN_PROFILES pol = None
        \<longrightarrow> alpha_points pol = 0 \<and> PoliticianScorer_score pol hist = late_filer_bonus pol hist)
   \<and> 0 \<le> PoliticianScorer_score pol hist \<and> PoliticianScorer_score pol hist \<le> 40"
proof -
  have b: "0 \<le> alpha_points pol" using alpha_points_bounds by simp
  have l: "0 \<le> late_filer_bonus pol hist" "late_filer_bonus pol hist \<le> 5"
    by (simp_all add: late_filer_bonus_def)
  have "map_of POLITICIAN_PROFILES pol = None \<Longrightarrow> alpha_points pol = 0"
    by (simp add: alpha_points_def)
  with b l show ?thesis unfolding PoliticianScorer_score_eq by auto
qed

theorem PoliticianScorer_score_reference_witness:
  "map_of POLITICIAN_PROFILES ''Jane Doe'' = None
   \<and> PoliticianScorer_score ''Jane Doe'' jane_late_history = 5
   \<and> late_filer_bonus ''Jane Doe'' jane_late_history = 5
   \<and> PoliticianScorer_score ''Nancy Pelosi'' jane_late_history = 161 / 5"
proof -
  have h: "map_of POLITICIAN_PROFILES ''Jane Doe'' = None" by code_simp
  have b: "late_filer_bonus ''Jane Doe'' jane_late_history = 5" by code_simp
  have p: "PoliticianScorer_score ''Nancy Pelosi'' jane_late_history = 161 / 5" by code_simp
  from h b p PoliticianScorer_score_reference [of "''Jane Doe''" jane_late_history]
  show ?thesis by simp
qed

text \<open>
  C9, as the code has it: the multiplier of \<open>execute_signal\<close> is 1 for FULL, 1/2 for
  HALF and 1/4 for QUARTER, and 1/4 for every other tag; the 1/2 default is that of
  \<open>PaperTrader.try_buy\<close> in main.py.
\<close>

theorem size_multiplier_values:
  "risk_dollars eq tag = eq * (2 / 100) * size_multiplier tag
   \<and> size_multiplier ''FULL'' = 1 \<and> size_multiplier ''HALF'' = 1 / 2
   \<and> size_multiplier ''QUARTER'' = 1 / 4
   \<and> (tag \<notin> {''FULL'', ''HALF'', ''QUARTER''}
        \<longrightarrow> size_multiplier tag = 1 / 4 \<and> try_buy_risk cash tag = cash * (2 / 100) * (1 / 2))"
  by (simp add: risk_dollars_def RISK_PER_TRADE_PCT_def size_multiplier_def
      SIZE_MULTIPLIERS_def try_buy_risk_def)

theorem size_multiplier_values_witness:
  "''DOUBLE'' \<notin> {''FULL'', ''HALF'', ''QUARTER''}
   \<and> size_multiplier ''DOUBLE'' = 1 / 4
   \<and> try_buy_risk 100000 ''DOUBLE'' = 100000 * (2 / 100) * (1 / 2)"
proof -
  have h: "''DOUBLE'' \<notin> {''FULL'', ''HALF'', ''QUARTER''}" by simp
  from h size_multiplier_values [of _ "''DOUBLE''" 100000] show ?thesis by blast
qed

theorem size_multiplier_default_counterexample:
  "''DOUBLE'' \<notin> {''FULL'', ''HALF'', ''QUARTER''}
   \<and> size_multiplier ''DOUBLE'' \<noteq> 1 / 2
   \<and> risk_dollars 100000 ''DOUBLE'' = 500"
  by (simp add: risk_dollars_def RISK_PER_TRADE_PCT_def size_multiplier_def
      SIZE_MULTIPLIERS_def)

subsection \<open>execute\_signal\<close>

lemma execute_signal_None_iff:
  "(\<exists>s' logs. execute_signal env s sig = Inr (None, s', logs)) \<longleftrightarrow>
     (5 \<le> length (positions s) \<or> symbol (trade sig) \<in> fst ` set (positions s)
      \<or> get_price env (symbol (trade sig)) = None
      \<or> get_price env (symbol (trade sig)) = Some 0)"
  by (auto simp: execute_signal_def MAX_POSITIONS_def Let_def
      split: option.splits if_splits)

lemma execute_signal_None_state:
  "execute_signal env s sig = Inr (None, s', logs) \<Longrightarrow> s' = s"
  by (auto simp: execute_signal_def Let_def split: option.splits if_splits)

text \<open>
  C8, as the code has it: \<open>execute_signal\<close> returns \<open>None\<close> exactly when five or more
  positions are open, or the symbol already has one, or the price source has no price or
  reports a price of zero (the guard is \<open>if not price\<close>); the trader is then unchanged and
  nothing is raised. The checks run in this order: with five positions open every signal
  is rejected with the position-limit message, whatever its score, symbol and price.
\<close>

theorem execute_signal_rejection:
  "((\<exists>s' logs. execute_signal env s sig = Inr (None, s', logs)) \<longleftrightarrow>
      (5 \<le> length (positions s) \<or> symbol (trade sig) \<in> fst ` set (positions s)
       \<or> get_price env (symbol (trade sig)) = None
       \<or> get_price env (symbol (trade sig)) = Some 0))
   \<and> (execute_signal env s sig = Inr (None, s', logs) \<longrightarrow> s' = s)
   \<and> (5 \<le> length (positions s)
        \<longrightarrow> execute_signal env s sig = Inr (None, s, [LogMaxPositions (symbol (trade sig))]))
   \<and> (length (positions s) < 5 \<and> symbol (trade sig) \<in> fst ` set (positions s)
        \<longrightarrow> execute_signal env s sig = Inr (None, s, [LogDuplicate (symbol (trade sig))]))
   \<and> (length (positions s) < 5 \<and> symbol (trade sig) \<notin> fst ` set (positions s)
        \<and> (get_price env (symbol (trade sig)) = None
             \<or> get_price env (symbol (trade sig)) = Some 0)
        \<longrightarrow> execute_signal env s sig = Inr (None, s, []))"
proof -
  have a: "5 \<le> length (positions s)
        \<longrightarrow> execute_signal env s sig = Inr (None, s, [LogMaxPositions (symbol (trade sig))])"
    by (simp add: execute_signal_def MAX_POSITIONS_def)
  have b: "length (positions s) < 5 \<and> symbol (trade sig) \<in> fst ` set (positions s)
        \<longrightarrow> execute_signal env s sig = Inr (None, s, [LogDuplicate (symbol (trade sig))])"
    by (simp add: execute_signal_def MAX_POSITIONS_def)
  have c: "length (positions s) < 5 \<and> symbol (trade sig) \<notin> fst ` set (positions s)
        \<and> (get_price env (symbol (trade sig)) = None
             \<or> get_price env (symbol (trade sig)) = Some 0)
        \<longrightarrow> execute_signal env s sig = Inr (None, s, [])"
    by (auto simp: execute_signal_def MAX_POSITIONS_def)
  from a b c execute_signal_None_iff [of env s sig] execute_signal_None_state [of env s sig s' logs]
  show ?thesis by blast
qed

theorem execute_signal_rejection_witness:
  "5 \<le> length (positions full_trader)
   \<and> execute_signal (fixed_env (Some 100)) full_trader nvda_signal
       = Inr (None, full_trader, [LogMaxPositions ''NVDA''])
   \<and> length (positions opened_trader) < 5
   \<and> symbol (trade nvda_signal) \<in> fst ` set (positions opened_trader)
   \<and> execute_signal (fixed_env (Some 100)) opened_trader nvda_signal
       = Inr (None, opened_trader, [LogDuplicate ''NVDA''])
   \<and> symbol (trade nvda_signal) \<notin> fst ` set (positions small_trader)
   \<and> get_price (fixed_env None) (symbol (trade nvda_signal)) = None
   \<and> execute_signal (fixed_env None) small_trader nvda_signal = Inr (None, small_trader, [])"
proof -
  have n: "symbol (trade nvda_signal) = ''NVDA''" by code_simp
  have h1: "5 \<le> length (positions full_trader)" by code_simp
  have h2: "length (positions opened_trader) < 5" by code_simp
  have h3: "symbol (trade nvda_signal) \<in> fst ` set (positions opened_trader)" by code_simp
  have h4: "length (positions small_trader) < 5" by code_simp
  have h5: "symbol (trade nvda_signal) \<notin> fst ` set (positions small_trader)" by code_simp
  have h6: "get_price (fixed_env None) (symbol (trade nvda_signal)) = None" by code_simp
  from h1 have r1: "execute_signal (fixed_env (Some 100)) full_trader nvda_signal
       = Inr (None, full_trader, [LogMaxPositions (symbol (trade nvda_signal))])"
    using execute_signal_rejection [of "fixed_env (Some 100)" full_trader nvda_signal] by blast
  from h2 h3 have r2: "execute_signal (fixed_env (Some 100)) opened_trader nvda_signal
       = Inr (None, opened_trader, [LogDuplicate (symbol (trade nvda_signal))])"
    using execute_signal_rejection [of "fixed_env (Some 100)" opened_trader nvda_signal] by blast
  from h4 h5 h6 have r3:
    "execute_signal (fixed_env None) small_trader nvda_signal = Inr (None, small_trader, [])"
    using execute_signal_rejection [of "fixed_env None" small_trader nvda_signal] by blast
  from h1 h2 h3 h5 h6 r1 r2 r3 show ?thesis unfolding n by simp
qed

theorem execute_signal_zero_price_counterexample:
  "execute_signal (fixed_env (Some 0)) small_trader nvda_signal = Inr (None, small_trader, [])
   \<and> length (positions small_trader) < 5
   \<and> symbol (trade nvda_signal) \<notin> fst ` set (positions small_trader)
   \<and> get_price (fixed_env (Some 0)) (symbol (trade nvda_signal)) = Some 0"
  by code_simp

lemma execute_signal_accepted:
  assumes "execute_signal env s sig = Inr (Some t, s', logs)"
    and "get_price env (symbol (trade sig)) = Some price"
  shows "shares t = min (max 1 (py_int (risk_dollars (equity s) (suggested_position_size sig)
                        / (price - py_round (price * (1 - STOP_LOSS_PCT)) 4))))
                      (py_int ((equity s * (10 / 100)) / price))
       \<and> entry_price t = price
       \<and> stop_loss t = py_round (price * (1 - STOP_LOSS_PCT)) 4
       \<and> take_profit t = py_round (price * (1 + TAKE_PROFIT_PCT)) 4
       \<and> is_open t
       \<and> signal t = sig
       \<and> positions s' = AList.update (symbol (trade sig)) t (positions s)
       \<and> history s' = history s
       \<and> symbol (trade sig) \<notin> fst ` set (positions s)
       \<and> length (positions s) < 5"
  using assms
  by (auto simp: execute_signal_def Let_def MAX_POSITIONS_def split: option.splits if_splits)

lemma cap_zero:
  assumes "0 \<le> (e::rat)" and "e * (10 / 100) < price"
  shows "py_int ((e * (10 / 100)) / price) = 0"
proof -
  have "0 \<le> e * (10 / 100)" using assms(1) by simp
  then have pos: "0 < price" using assms(2) by linarith
  have "0 \<le> e * (10 / 100) / price" using assms(1) pos by simp
  moreover have "e * (10 / 100) / price < 1" using assms(2) pos by simp
  ultimately show ?thesis by (simp add: py_int_def floor_eq_iff)
qed

text \<open>
  C10: an accepted signal whose price exceeds 10 percent of a non-negative equity gives a
  position of 0 shares, open and stored under its symbol: the cap
  \<open>int(equity * 0.10 / price)\<close> is 0 and is applied after the floor of one share.
\<close>

theorem execute_signal_zero_shares:
  assumes "execute_signal env s sig = Inr (Some t, s', logs)"
    and "get_price env (symbol (trade sig)) = Some price"
    and "0 \<le> equity s" and "equity s * (10 / 100) < price"
  shows "shares t = 0 \<and> is_open t \<and> map_of (positions s') (symbol (trade sig)) = Some t"
proof -
  note a = execute_signal_accepted [OF assms(1,2)]
  have "shares t = 0" using a cap_zero [OF assms(3,4)] by simp
  moreover have "map_of (positions s') (symbol (trade sig)) = Some t"
    using a by (simp add: update_conv')
  ultimately show ?thesis using a by simp
qed

theorem execute_signal_zero_shares_witness:
  "\<exists>t s' logs. execute_signal (fixed_env (Some 120)) small_trader nvda_signal
        = Inr (Some t, s', logs)
     \<and> get_price (fixed_env (Some 120)) (symbol (trade nvda_signal)) = Some 120
     \<and> 0 \<le> equity small_trader \<and> equity small_trader * (10 / 100) < 120
     \<and> shares t = 0 \<and> is_open t \<and> map_of (positions s') ''NVDA'' = Some t"
proof -
  have n: "symbol (trade nvda_signal) = ''NVDA''" by code_simp
  have "case execute_signal (fixed_env (Some 120)) small_trader nvda_signal of
          Inr (Some t, s', logs) \<Rightarrow> True | _ \<Rightarrow> False"
    by code_simp
  then obtain t s' logs where
    e: "execute_signal (fixed_env (Some 120)) small_trader nvda_signal = Inr (Some t, s', logs)"
    by (auto split: sum.splits option.splits prod.splits)
  have p: "get_price (fixed_env (Some 120)) (symbol (trade nvda_signal)) = Some 120"
    by code_simp
  have q: "0 \<le> equity small_trader" "equity small_trader * (10 / 100) < 120"
    by code_simp+
  from execute_signal_zero_shares [OF e p q] e p q show ?thesis unfolding n by blast
qed

text \<open>
  C1 fails on the code: a position whose symbol has no price is ticked at its entry
  price. Here NVDA was bought at 100 and its stop trailed to 104.72 by a tick at 119;
  a tick without any price then closes it at 100, moves it to the history and adds the
  proceeds to the equity.
\<close>

theorem missing_price_closes_position:
  "map (\<lambda>(k, t). (k, entry_price t, stop_loss t, take_profit t, shares t, is_open t))
       (positions trailed_trader) = [(''NVDA'', 100, 2618 / 25, 120, 100, True)]
   \<and> history trailed_trader = [] \<and> equity trailed_trader = 100000
   \<and> fst (update_positions trailed_trader Map.empty) = [''NVDA'']
   \<and> positions (fst (snd (update_positions trailed_trader Map.empty))) = []
   \<and> map (\<lambda>t. (entry_price t, stop_loss t, shares t, pnl t, is_open t))
       (history (fst (snd (update_positions trailed_trader Map.empty))))
       = [(100, 2618 / 25, 100, 0, False)]
   \<and> equity (fst (snd (update_positions trailed_trader Map.empty))) = 110000"
  by code_simp

subsection \<open>detect\_clusters\<close>

lemma cluster_step_record:
  "cluster_step result (k, ts) =
     (if 2 \<le> length (remdups (map politician ts))
      then AList.update k (cluster_record ts) result else result)"
  by (simp add: cluster_step_def cluster_record_def Let_def)

lemma map_of_group_step:
  "map_of (group_step acc t) k =
     (if k = symbol t
      then Some ((case map_of acc k of None \<Rightarrow> [] | Some ts \<Rightarrow> ts) @ [t])
      else map_of acc k)"
  by (simp add: group_step_def update_conv')

lemma map_of_group_fold:
  "map_of (foldl group_step acc ts) k =
     (if map_of acc k = None \<and> filter (\<lambda>t. symbol t = k) ts = [] then None
      else Some ((case map_of acc k of None \<Rightarrow> [] | Some l \<Rightarrow> l)
                 @ filter (\<lambda>t. symbol t = k) ts))"
proof (induction ts arbitrary: acc)
  case Nil
  then show ?case by (simp split: option.splits)
next
  case (Cons t ts)
  show ?case
    unfolding foldl_Cons Cons.IH map_of_group_step
    by (simp split: option.splits)
qed

lemma distinct_group_fold:
  "distinct (map fst acc) \<Longrightarrow> distinct (map fst (foldl group_step acc ts))"
  by (induction ts arbitrary: acc) (simp_all add: group_step_def distinct_update)

lemma map_of_cluster_fold:
  "distinct (map fst cl) \<Longrightarrow>
   map_of (foldl cluster_step res cl) k =
     (case map_of cl k of
        None \<Rightarrow> map_of res k
      | Some ts \<Rightarrow> if 2 \<le> length (remdups (map politician ts))
                   then Some (cluster_record ts) else map_of res k)"
proof (induction cl arbitrary: res)
  case Nil
  then show ?case by simp
next
  case (Cons p cl)
  obtain k' ts' where p: "p = (k', ts')" by (cases p)
  from Cons.prems p have d: "distinct (map fst cl)" and n: "k' \<notin> fst ` set cl" by auto
  from n have none: "map_of cl k' = None" by (simp add: map_of_eq_None_iff)
  show ?case
    unfolding foldl_Cons p Cons.IH [OF d] cluster_step_record
    using none by (auto simp: update_conv' split: option.splits)
qed

lemma map_of_detect_clusters:
  "map_of (detect_clusters hist cutoff) k =
     (let ts = filter (\<lambda>t. symbol t = k) (recent_purchases hist cutoff)
      in if 2 \<le> length (remdups (map politician ts)) then Some (cluster_record ts) else None)"
proof -
  have d: "distinct (map fst (foldl group_step [] (recent_purchases hist cutoff)))"
    by (rule distinct_group_fold) simp
  show ?thesis
    unfolding detect_clusters_def Let_def map_of_cluster_fold [OF d] map_of_group_fold
    by simp
qed

lemma buyers_recent:
  "buyers hist cutoff k =
     set (map politician (filter (\<lambda>t. symbol t = k) (recent_purchases hist cutoff)))"
  by (auto simp: buyers_def recent_purchases_def is_purchase_iff)

lemma count_buyers:
  "length (remdups (map politician (filter (\<lambda>t. symbol t = k) (recent_purchases hist cutoff))))
     = card (buyers hist cutoff k)"
  unfolding buyers_recent by (simp add: length_remdups_card_conv)

text \<open>
  C6, as the code has it: a symbol is in the cluster map exactly when at least two distinct
  politicians have a purchase-type trade in it dated on or after the cutoff (today minus
  the window; no later bound is checked); its entry holds the number of these politicians,
  their names once each, the summed average amounts and the bonus min(count * 8, 20); the
  looked-up sub-score is 0 with no reasons for an absent symbol, the bonus with the count,
  at most five names and the total for a present one, and lies between 0 and 20.
\<close>

theorem detect_clusters_reference:
  "(symb \<in> fst ` set (detect_clusters hist cutoff) \<longleftrightarrow> 2 \<le> card (buyers hist cutoff symb))
   \<and> (map_of (detect_clusters hist cutoff) symb = Some c \<longrightarrow>
        count c = card (buyers hist cutoff symb)
        \<and> set (politicians c) = buyers hist cutoff symb \<and> distinct (politicians c)
        \<and> total_amount c = sum_list (map avg_amount
            (filter (\<lambda>t. symbol t = symb) (recent_purchases hist cutoff)))
        \<and> score c = min (int (card (buyers hist cutoff symb)) * 8) 20)
   \<and> (symb \<notin> fst ` set cl \<longrightarrow> score_for_symbol symb cl = (0, []))
   \<and> (map_of cl symb = Some c' \<longrightarrow>
        score_for_symbol symb cl =
          (of_int (score c'),
           [ClusterCount (count c') symb, ClusterPoliticians (take 5 (politicians c')),
            ClusterTotal (total_amount c')])
        \<and> length (take 5 (politicians c')) \<le> 5)
   \<and> 0 \<le> fst (score_for_symbol symb (detect_clusters hist cutoff))
   \<and> fst (score_for_symbol symb (detect_clusters hist cutoff)) \<le> 20"
proof -
  let ?ts = "filter (\<lambda>t. symbol t = symb) (recent_purchases hist cutoff)"
  have m: "map_of (detect_clusters hist cutoff) symb =
             (if 2 \<le> card (buyers hist cutoff symb) then Some (cluster_record ?ts) else None)"
    unfolding map_of_detect_clusters Let_def count_buyers ..
  have a: "symb \<in> fst ` set (detect_clusters hist cutoff) \<longleftrightarrow> 2 \<le> card (buyers hist cutoff symb)"
  proof -
    have "symb \<in> fst ` set (detect_clusters hist cutoff)
            \<longleftrightarrow> map_of (detect_clusters hist cutoff) symb \<noteq> None"
      by (simp add: map_of_eq_None_iff)
    then show ?thesis unfolding m by simp
  qed
  have b: "map_of (detect_clusters hist cutoff) symb = Some c \<longrightarrow>
        count c = card (buyers hist cutoff symb)
        \<and> set (politicians c) = buyers hist cutoff symb \<and> distinct (politicians c)
        \<and> total_amount c = sum_list (map avg_amount ?ts)
        \<and> score c = min (int (card (buyers hist cutoff symb)) * 8) 20"
  proof
    assume "map_of (detect_clusters hist cutoff) symb = Some c"
    with m have c: "c = cluster_record ?ts" by (auto split: if_splits)
    show "count c = card (buyers hist cutoff symb)
        \<and> set (politicians c) = buyers hist cutoff symb \<and> distinct (politicians c)
        \<and> total_amount c = sum_list (map avg_amount ?ts)
        \<and> score c = min (int (card (buyers hist cutoff symb)) * 8) 20"
      unfolding c cluster_record_def using count_buyers [of symb hist cutoff]
      by (simp add: buyers_recent)
  qed
  have c: "symb \<notin> fst ` set cl \<longrightarrow> score_for_symbol symb cl = (0, [])"
    by (simp add: score_for_symbol_def map_of_eq_None_iff [symmetric])
  have d: "map_of cl symb = Some c' \<longrightarrow>
        score_for_symbol symb cl =
          (of_int (score c'),
           [ClusterCount (count c') symb, ClusterPoliticians (take 5 (politicians c')),
            ClusterTotal (total_amount c')])
        \<and> length (take 5 (politicians c')) \<le> 5"
    by (simp add: score_for_symbol_def)
  have e: "0 \<le> fst (score_for_symbol symb (detect_clusters hist cutoff))
   \<and> fst (score_for_symbol symb (detect_clusters hist cutoff)) \<le> 20"
    unfolding score_for_symbol_def m by (simp add: cluster_record_def)
  from a b c d e show ?thesis by blast
qed

theorem detect_clusters_reference_witness:
  "''NVDA'' \<in> fst ` set (detect_clusters cluster_history (Date 2026 10 4))
   \<and> card (buyers cluster_history (Date 2026 10 4) ''NVDA'') = 2
   \<and> map_of (detect_clusters cluster_history (Date 2026 10 4)) ''NVDA''
        = Some (cluster_record cluster_history)
   \<and> score_for_symbol ''NVDA'' (detect_clusters cluster_history (Date 2026 10 4))
        = (16, [ClusterCount 2 ''NVDA'', ClusterPoliticians [''Nancy Pelosi'', ''Dan Crenshaw''],
                ClusterTotal 6000000])
   \<and> ''AAPL'' \<notin> fst ` set (detect_clusters cluster_history (Date 2026 10 4))
   \<and> score_for_symbol ''AAPL'' (detect_clusters cluster_history (Date 2026 10 4)) = (0, [])"
proof -
  let ?cl = "detect_clusters cluster_history (Date 2026 10 4)"
  have v: "map_of ?cl ''NVDA'' = Some (cluster_record cluster_history)" by code_simp
  have n: "''AAPL'' \<notin> fst ` set ?cl" by code_simp
  have r: "count (cluster_record cluster_history) = 2"
    "score (cluster_record cluster_history) = 16"
    "take 5 (politicians (cluster_record cluster_history)) = [''Nancy Pelosi'', ''Dan Crenshaw'']"
    "total_amount (cluster_record cluster_history) = 6000000"
    by code_simp+
  note t1 = detect_clusters_reference
    [of "''NVDA''" cluster_history "Date 2026 10 4" "cluster_record cluster_history" ?cl
        "cluster_record cluster_history"]
  note t2 = detect_clusters_reference
    [of "''AAPL''" cluster_history "Date 2026 10 4" "cluster_record cluster_history" ?cl
        "cluster_record cluster_history"]
  from v t1 have c: "card (buyers cluster_history (Date 2026 10 4) ''NVDA'') = 2"
    using r(1) by simp
  from c t1 have k: "''NVDA'' \<in> fst ` set ?cl" by simp
  from v t1 have s: "score_for_symbol ''NVDA'' ?cl
        = (16, [ClusterCount 2 ''NVDA'', ClusterPoliticians [''Nancy Pelosi'', ''Dan Crenshaw''],
                ClusterTotal 6000000])"
    using r by simp
  from n t2 have z: "score_for_symbol ''AAPL'' ?cl = (0, [])" by blast
  from k c v s n z show ?thesis by blast
qed

theorem detect_clusters_window_counterexample:
  "''NVDA'' \<in> fst ` set (detect_clusters future_history (Date 2026 10 4))
   \<and> buyers_in_window future_history (Date 2026 10 4) (Date 2026 11 3) ''NVDA'' = {}"
proof -
  have "''NVDA'' \<in> fst ` set (detect_clusters future_history (Date 2026 10 4))"
    by code_simp
  moreover have "buyers_in_window future_history (Date 2026 10 4) (Date 2026 11 3) ''NVDA'' = {}"
    by (auto simp: buyers_in_window_def future_history_def date_le_def)
  ultimately show ?thesis by simp
qed

subsection \<open>generate\_signals\<close>

lemma score_trade_trade: "score_trade h c t = Some s \<Longrightarrow> trade s = t"
  by (auto simp: score_trade_def Let_def split: prod.splits option.splits if_splits)

lemma signals_loop_origin:
  "s \<in> set (signals_loop h c ts seen) \<Longrightarrow>
   \<exists>i<length ts. score_trade h c (ts ! i) = Some s \<and> is_purchase (ts ! i)
      \<and> dedup_key (ts ! i) \<notin> seen
      \<and> (\<forall>j<i. is_purchase (ts ! j) \<longrightarrow> dedup_key (ts ! j) \<noteq> dedup_key (ts ! i))"
proof (induction ts arbitrary: seen)
  case Nil
  then show ?case by simp
next
  case (Cons t ts)
  have step: "\<exists>i<length (t # ts). score_trade h c ((t # ts) ! i) = Some s
        \<and> is_purchase ((t # ts) ! i) \<and> dedup_key ((t # ts) ! i) \<notin> seen
        \<and> (\<forall>j<i. is_purchase ((t # ts) ! j)
              \<longrightarrow> dedup_key ((t # ts) ! j) \<noteq> dedup_key ((t # ts) ! i))"
    if mem: "s \<in> set (signals_loop h c ts seen')"
      and sub: "seen \<subseteq> seen'"
      and hd: "is_purchase t \<Longrightarrow> dedup_key t \<in> seen'"
    for seen'
  proof -
    from Cons.IH [OF mem] obtain i where i: "i < length ts"
      "score_trade h c (ts ! i) = Some s" "is_purchase (ts ! i)"
      "dedup_key (ts ! i) \<notin> seen'"
      "\<forall>j<i. is_purchase (ts ! j) \<longrightarrow> dedup_key (ts ! j) \<noteq> dedup_key (ts ! i)"
      by blast
    have "is_purchase ((t # ts) ! j) \<longrightarrow> dedup_key ((t # ts) ! j) \<noteq> dedup_key (ts ! i)"
      if "j < Suc i" for j
    proof (cases j)
      case 0
      then show ?thesis using hd i(4) by auto
    next
      case (Suc j')
      then show ?thesis using that i(5) by simp
    qed
    then have "\<forall>j<Suc i. is_purchase ((t # ts) ! j)
        \<longrightarrow> dedup_key ((t # ts) ! j) \<noteq> dedup_key ((t # ts) ! Suc i)"
      by simp
    moreover have "dedup_key ((t # ts) ! Suc i) \<notin> seen" using i(4) sub by auto
    ultimately show ?thesis using i(1,2,3) by (intro exI [of _ "Suc i"]) simp
  qed
  show ?case
  proof (cases "is_purchase t \<and> dedup_key t \<notin> seen")
    case False
    then have "signals_loop h c (t # ts) seen = signals_loop h c ts seen" by auto
    with Cons.prems have "s \<in> set (signals_loop h c ts seen)" by simp
    then show ?thesis using False by (intro step [of seen]) auto
  next
    case True
    with Cons.prems have
      "score_trade h c t = Some s \<or> s \<in> set (signals_loop h c ts (insert (dedup_key t) seen))"
      by (auto split: option.splits)
    then show ?thesis
    proof
      assume "score_trade h c t = Some s"
      with True show ?thesis by (intro exI [of _ 0]) simp
    next
      assume "s \<in> set (signals_loop h c ts (insert (dedup_key t) seen))"
      then show ?thesis by (intro step [of "insert (dedup_key t) seen"]) auto
    qed
  qed
qed

lemma signals_loop_keys_fresh:
  assumes "s \<in> set (signals_loop h c ts seen)"
  shows "dedup_key (trade s) \<notin> seen"
proof -
  from signals_loop_origin [OF assms] obtain i where
    "score_trade h c (ts ! i) = Some s" "dedup_key (ts ! i) \<notin> seen" by blast
  then show ?thesis using score_trade_trade by fastforce
qed

lemma signals_loop_keys_distinct:
  "distinct (map (\<lambda>s. dedup_key (trade s)) (signals_loop h c ts seen))"
proof (induction ts arbitrary: seen)
  case Nil
  then show ?case by simp
next
  case (Cons t ts)
  show ?case
  proof (cases "is_purchase t \<and> dedup_key t \<notin> seen")
    case False
    then have "signals_loop h c (t # ts) seen = signals_loop h c ts seen" by auto
    then show ?thesis using Cons.IH by simp
  next
    case True
    show ?thesis
    proof (cases "score_trade h c t")
      case None
      with True have "signals_loop h c (t # ts) seen
          = signals_loop h c ts (insert (dedup_key t) seen)" by simp
      then show ?thesis using Cons.IH by simp
    next
      case (Some s)
      with True have eq: "signals_loop h c (t # ts) seen
          = s # signals_loop h c ts (insert (dedup_key t) seen)" by simp
      have "dedup_key (trade s') \<noteq> dedup_key (trade s)"
        if "s' \<in> set (signals_loop h c ts (insert (dedup_key t) seen))" for s'
        using signals_loop_keys_fresh [OF that] score_trade_trade [OF Some] by auto
      then have "dedup_key (trade s)
          \<notin> (\<lambda>s. dedup_key (trade s)) ` set (signals_loop h c ts (insert (dedup_key t) seen))"
        by force
      then show ?thesis unfolding eq using Cons.IH by simp
    qed
  qed
qed

lemma filter_at_most_one:
  "distinct (map f xs) \<Longrightarrow> (\<And>x. P x \<Longrightarrow> f x = k) \<Longrightarrow> length (filter P xs) \<le> 1"
proof (induction xs)
  case Nil
  then show ?case by simp
next
  case (Cons x xs)
  show ?case
  proof (cases "P x")
    case True
    have "\<not> P y" if "y \<in> set xs" for y
    proof
      assume "P y"
      then have "f y = f x" using Cons.prems(2) True by simp
      moreover from Cons.prems(1) have "f x \<notin> f ` set xs" by simp
      ultimately show False using that by (metis imageI)
    qed
    then have "filter P xs = []" by (simp add: filter_empty_conv)
    then show ?thesis using True by simp
  next
    case False
    then show ?thesis using Cons by simp
  qed
qed

lemma set_generate_signals:
  "set (generate_signals ts hist cutoff)
     = set (signals_loop hist (detect_clusters hist cutoff) ts {})"
  by (simp add: generate_signals_def sort_reverse_def Let_def)

text \<open>
  C5: of the trades of a batch with one symbol and one transaction date, one pass emits at
  most one signal, and a signal that is emitted is the scoring of the first purchase in feed
  order with its symbol and date, which passed the threshold check; every earlier trade with
  that symbol and date is a non-purchase, skipped before any scoring.
\<close>

theorem generate_signals_dedup:
  "length (filter (\<lambda>s. symbol (trade s) = symb \<and> transaction_date (trade s) = d)
                  (generate_signals ts hist cutoff)) \<le> 1
   \<and> (\<forall>s \<in> set (generate_signals ts hist cutoff).
        \<exists>i<length ts. trade s = ts ! i \<and> is_purchase (ts ! i)
          \<and> score_trade hist (detect_clusters hist cutoff) (ts ! i) = Some s
          \<and> (\<forall>j<i. is_purchase (ts ! j)
                \<longrightarrow> \<not> (symbol (ts ! j) = symbol (ts ! i)
                        \<and> transaction_date (ts ! j) = transaction_date (ts ! i))))"
proof -
  let ?sigs = "signals_loop hist (detect_clusters hist cutoff) ts {}"
  let ?P = "\<lambda>s. symbol (trade s) = symb \<and> transaction_date (trade s) = d"
  have "filter ?P (generate_signals ts hist cutoff)
          = sort_key (\<lambda>x. - total_score x) (filter ?P ?sigs)"
    by (simp add: generate_signals_def sort_reverse_def Let_def filter_sort)
  then have "length (filter ?P (generate_signals ts hist cutoff)) = length (filter ?P ?sigs)"
    by simp
  moreover have "length (filter ?P ?sigs) \<le> 1"
  proof (rule filter_at_most_one [where f = "\<lambda>s. dedup_key (trade s)"
          and k = "symb @ ''_'' @ date_str d"])
    show "distinct (map (\<lambda>s. dedup_key (trade s)) ?sigs)"
      by (rule signals_loop_keys_distinct)
    show "dedup_key (trade x) = symb @ ''_'' @ date_str d"
      if "symbol (trade x) = symb \<and> transaction_date (trade x) = d" for x
      using that by (simp add: dedup_key_def)
  qed
  moreover have "\<exists>i<length ts. trade s = ts ! i \<and> is_purchase (ts ! i)
          \<and> score_trade hist (detect_clusters hist cutoff) (ts ! i) = Some s
          \<and> (\<forall>j<i. is_purchase (ts ! j)
                \<longrightarrow> \<not> (symbol (ts ! j) = symbol (ts ! i)
                        \<and> transaction_date (ts ! j) = transaction_date (ts ! i)))"
    if "s \<in> set (generate_signals ts hist cutoff)" for s
  proof -
    from that have "s \<in> set ?sigs" by (simp add: set_generate_signals)
    from signals_loop_origin [OF this] obtain i where i: "i < length ts"
      "score_trade hist (detect_clusters hist cutoff) (ts ! i) = Some s" "is_purchase (ts ! i)"
      "\<forall>j<i. is_purchase (ts ! j) \<longrightarrow> dedup_key (ts ! j) \<noteq> dedup_key (ts ! i)"
      by blast
    from i(4) have "\<forall>j<i. is_purchase (ts ! j)
                \<longrightarrow> \<not> (symbol (ts ! j) = symbol (ts ! i)
                        \<and> transaction_date (ts ! j) = transaction_date (ts ! i))"
      by (auto simp: dedup_key_def)
    with i(1,2,3) score_trade_trade [OF i(2)] show ?thesis by blast
  qed
  ultimately show ?thesis by simp
qed

theorem generate_signals_dedup_witness:
  "map trade (generate_signals same_day_batch cluster_history (Date 2026 10 4)) = [pelosi_nvda]
   \<and> length (filter (\<lambda>s. symbol (trade s) = ''NVDA'' \<and> transaction_date (trade s) = Date 2026 10 20)
        (generate_signals same_day_batch cluster_history (Date 2026 10 4))) \<le> 1
   \<and> same_day_batch ! 1 = pelosi_nvda \<and> is_purchase (same_day_batch ! 1)
   \<and> \<not> is_purchase (same_day_batch ! 0)"
proof -
  have e: "map trade (generate_signals same_day_batch cluster_history (Date 2026 10 4))
             = [pelosi_nvda]"
    by code_simp
  have p: "same_day_batch ! 1 = pelosi_nvda" "is_purchase (same_day_batch ! 1)"
    "\<not> is_purchase (same_day_batch ! 0)"
    by code_simp+
  from generate_signals_dedup [of "''NVDA''" "Date 2026 10 20" same_day_batch cluster_history
      "Date 2026 10 4"] e p
  show ?thesis by blast
qed

subsection \<open>Thresholds and the rounded total\<close>

lemma round_half_even_add_even:
  assumes "even n"
  shows "round_half_even (of_int n + y) = n + round_half_even y"
proof -
  have f: "\<lfloor>of_int n + y\<rfloor> = n + \<lfloor>y\<rfloor>" by simp
  have d: "of_int n + y - of_int (n + \<lfloor>y\<rfloor>) = y - of_int \<lfloor>y\<rfloor>" by simp
  have e: "even (n + \<lfloor>y\<rfloor>) = even \<lfloor>y\<rfloor>" using assms by simp
  show ?thesis unfolding round_half_even_def Let_def f d e by simp
qed

lemma int_le_add_frac:
  fixes g :: rat
  assumes "0 \<le> g" "g < 1"
  shows "(of_int b \<le> of_int q + g) = (b \<le> q)"
proof
  assume "of_int b \<le> of_int q + g"
  with assms(2) have "(of_int b :: rat) < of_int (q + 1)" by simp
  then have "b < q + 1" by (simp only: of_int_less_iff)
  then show "b \<le> q" by simp
next
  assume "b \<le> q"
  then have "(of_int b :: rat) \<le> of_int q" by simp
  with assms(1) show "of_int b \<le> of_int q + g" by simp
qed

lemma round_half_even_fractions:
  "round_half_even 0 = 0" "round_half_even 2 = 2" "round_half_even (15 / 2) = 8"
  "round_half_even 8 = 8" "round_half_even (17 / 2) = 8"
  by code_simp+

lemma py_round_grid:
  assumes "f \<in> {0, 1 / 5, 3 / 4, 4 / 5, 17 / 20}"
  shows "\<exists>g. 0 \<le> g \<and> g < 1 \<and> py_round (of_int q + f) 1 = of_int q + g"
proof -
  have s: "(of_int q + f) * 10 ^ 1 = of_int (10 * q) + 10 * f" by (simp add: algebra_simps)
  have e: "round_half_even (of_int (10 * q) + 10 * f) = 10 * q + round_half_even (10 * f)"
    by (rule round_half_even_add_even) simp
  have r: "py_round (of_int q + f) 1 = of_int q + of_int (round_half_even (10 * f)) / 10"
    unfolding py_round_def s e by (simp add: add_divide_distrib)
  have "\<forall>f \<in> {0, 1 / 5, 3 / 4, 4 / 5, 17 / 20}. round_half_even (10 * f) \<in> {0, 2, 8}"
    by (simp add: round_half_even_fractions)
  with assms have "round_half_even (10 * f) \<in> {0, 2, 8}" by blast
  then have "0 \<le> (of_int (round_half_even (10 * f)) / 10 :: rat)
      \<and> (of_int (round_half_even (10 * f)) / 10 :: rat) < 1"
    by auto
  with r show ?thesis by blast
qed

lemma grid_round_ge:
  assumes "x \<in> score_grid"
  shows "(of_int b \<le> py_round x 1) = (of_int b \<le> x)"
proof -
  from assms obtain q f where x: "x = of_int q + f"
    and f: "f \<in> {0, 1 / 5, 3 / 4, 4 / 5, 17 / 20}"
    unfolding score_grid_def by blast
  from py_round_grid [OF f, of q] obtain g where
    g: "0 \<le> g" "g < 1" "py_round (of_int q + f) 1 = of_int q + g" by blast
  from f have "0 \<le> f \<and> f < 1" by auto
  then have "(of_int b \<le> x) = (b \<le> q)" unfolding x by (intro int_le_add_frac) simp_all
  moreover have "(of_int b \<le> py_round x 1) = (b \<le> q)"
    unfolding x g(3) using g(1,2) by (rule int_le_add_frac)
  ultimately show ?thesis by simp
qed

lemma grid_intro:
  "f \<in> {0, 1 / 5, 3 / 4, 4 / 5, 17 / 20} \<Longrightarrow> x = of_int q + f \<Longrightarrow> x \<in> score_grid"
  unfolding score_grid_def by blast

lemma grid_add_int:
  assumes "x \<in> score_grid"
  shows "x + of_int k \<in> score_grid"
proof -
  from assms obtain q f where x: "x = of_int q + f"
    and f: "f \<in> {0, 1 / 5, 3 / 4, 4 / 5, 17 / 20}"
    unfolding score_grid_def by blast
  have "x + of_int k = of_int (q + k) + f" unfolding x by simp
  with f show ?thesis by (rule grid_intro)
qed

lemma grid_values:
  "(0 :: rat) \<in> score_grid" "(5 :: rat) \<in> score_grid"
  "161 / 5 \<in> score_grid" "186 / 5 \<in> score_grid"
  "497 / 20 \<in> score_grid" "597 / 20 \<in> score_grid"
  "119 / 5 \<in> score_grid" "144 / 5 \<in> score_grid"
  "91 / 4 \<in> score_grid" "111 / 4 \<in> score_grid"
  "(21 :: rat) \<in> score_grid" "(26 :: rat) \<in> score_grid"
proof -
  show "(0 :: rat) \<in> score_grid" by (rule grid_intro [of 0 _ 0]) simp_all
  show "(5 :: rat) \<in> score_grid" by (rule grid_intro [of 0 _ 5]) simp_all
  show "(161 / 5 :: rat) \<in> score_grid" by (rule grid_intro [of "1 / 5" _ 32]) simp_all
  show "(186 / 5 :: rat) \<in> score_grid" by (rule grid_intro [of "1 / 5" _ 37]) simp_all
  show "(497 / 20 :: rat) \<in> score_grid" by (rule grid_intro [of "17 / 20" _ 24]) simp_all
  show "(597 / 20 :: rat) \<in> score_grid" by (rule grid_intro [of "17 / 20" _ 29]) simp_all
  show "(119 / 5 :: rat) \<in> score_grid" by (rule grid_intro [of "4 / 5" _ 23]) simp_all
  show "(144 / 5 :: rat) \<in> score_grid" by (rule grid_intro [of "4 / 5" _ 28]) simp_all
  show "(91 / 4 :: rat) \<in> score_grid" by (rule grid_intro [of "3 / 4" _ 22]) simp_all
  show "(111 / 4 :: rat) \<in> score_grid" by (rule grid_intro [of "3 / 4" _ 27]) simp_all
  show "(21 :: rat) \<in> score_grid" by (rule grid_intro [of 0 _ 21]) simp_all
  show "(26 :: rat) \<in> score_grid" by (rule grid_intro [of 0 _ 26]) simp_all
qed

lemma PoliticianScorer_score_values:
  "PoliticianScorer_score pol hist
     \<in> {0, 5, 161 / 5, 186 / 5, 497 / 20, 597 / 20, 119 / 5, 144 / 5, 91 / 4, 111 / 4, 21, 26}"
  unfolding PoliticianScorer_score_eq alpha_points_def late_filer_bonus_def
  by (simp add: POLITICIAN_PROFILES_def)

lemma PoliticianScorer_score_grid: "PoliticianScorer_score pol hist \<in> score_grid"
proof -
  have "{0, 5, 161 / 5, 186 / 5, 497 / 20, 597 / 20, 119 / 5, 144 / 5, 91 / 4, 111 / 4, 21, 26}
      \<subseteq> score_grid"
    by (simp only: insert_subset empty_subsetI grid_values simp_thms)
  then show ?thesis using PoliticianScorer_score_values by (rule subsetD)
qed

lemma TradeScorer_score_int: "fst (TradeScorer_score t) \<in> \<int>"
  by (simp add: TradeScorer_score_def Let_def min_def)

lemma score_for_symbol_int: "fst (score_for_symbol symb c) \<in> \<int>"
  by (simp add: score_for_symbol_def split: option.splits)

lemma score_trade_total:
  assumes "score_trade h c t = Some s"
  shows "\<exists>tot. tot \<in> score_grid \<and> 40 \<le> tot \<and> total_score s = py_round tot 1
           \<and> tier_of tot = Some (recommendation s, urgency s, suggested_position_size s)"
proof -
  define tot where "tot = PoliticianScorer_score (politician t) h + fst (TradeScorer_score t)
      + fst (score_for_symbol (symbol t) c)"
  obtain k1 where k1: "fst (TradeScorer_score t) = of_int k1"
    using TradeScorer_score_int [of t] by (auto elim: Ints_cases)
  obtain k2 where k2: "fst (score_for_symbol (symbol t) c) = of_int k2"
    using score_for_symbol_int [of "symbol t" c] by (auto elim: Ints_cases)
  have "tot \<in> score_grid" unfolding tot_def k1 k2
    by (intro grid_add_int PoliticianScorer_score_grid)
  moreover from assms have "40 \<le> tot \<and> total_score s = py_round tot 1
      \<and> tier_of tot = Some (recommendation s, urgency s, suggested_position_size s)"
    unfolding score_trade_def tot_def
    by (auto simp: Let_def MIN_SCORE_FOR_SIGNAL_def split: prod.splits option.splits if_splits)
  ultimately show ?thesis by blast
qed

lemma score_trade_tier:
  assumes "score_trade h c t = Some s"
  shows "40 \<le> total_score s
     \<and> (80 \<le> total_score s \<longrightarrow>
          recommendation s = ''STRONG BUY'' \<and> urgency s = ''IMMEDIATE''
          \<and> suggested_position_size s = ''FULL'')
     \<and> (65 \<le> total_score s \<and> total_score s < 80 \<longrightarrow>
          recommendation s = ''BUY'' \<and> urgency s = ''TODAY''
          \<and> suggested_position_size s = ''HALF'')
     \<and> (40 \<le> total_score s \<and> total_score s < 65 \<longrightarrow>
          recommendation s = ''WATCH'' \<and> urgency s = ''THIS_WEEK''
          \<and> suggested_position_size s = ''QUARTER'')"
proof -
  from score_trade_total [OF assms] obtain tot where g: "tot \<in> score_grid" and m: "40 \<le> tot"
    and r: "total_score s = py_round tot 1"
    and t: "tier_of tot = Some (recommendation s, urgency s, suggested_position_size s)"
    by blast
  have a: "(40 \<le> total_score s) = (40 \<le> tot)"
    using grid_round_ge [OF g, of 40] unfolding r by simp
  have b: "(65 \<le> total_score s) = (65 \<le> tot)"
    using grid_round_ge [OF g, of 65] unfolding r by simp
  have c: "(80 \<le> total_score s) = (80 \<le> tot)"
    using grid_round_ge [OF g, of 80] unfolding r by simp
  have c': "(total_score s < 80) = (tot < 80)" using c by (simp add: not_le [symmetric])
  have b': "(total_score s < 65) = (tot < 65)" using b by (simp add: not_le [symmetric])
  show ?thesis unfolding a b c b' c' using m t
    by (auto simp: tier_of_def split: if_splits)
qed

text \<open>
  C4: every signal \<open>generate_signals\<close> returns has a total of at least 40, and its
  recommendation, urgency and size are those of its total: STRONG BUY / IMMEDIATE / FULL from
  80, BUY / TODAY / HALF from 65 to below 80, WATCH / THIS\_WEEK / QUARTER from 40 to below
  65. The returned list is in descending order of total, and signals of equal total keep the
  order in which the loop produced them.
\<close>

theorem generate_signals_tiers_sorted:
  "(\<forall>s \<in> set (generate_signals ts hist cutoff).
      40 \<le> total_score s
      \<and> (80 \<le> total_score s \<longrightarrow>
           recommendation s = ''STRONG BUY'' \<and> urgency s = ''IMMEDIATE''
           \<and> suggested_position_size s = ''FULL'')
      \<and> (65 \<le> total_score s \<and> total_score s < 80 \<longrightarrow>
           recommendation s = ''BUY'' \<and> urgency s = ''TODAY''
           \<and> suggested_position_size s = ''HALF'')
      \<and> (40 \<le> total_score s \<and> total_score s < 65 \<longrightarrow>
           recommendation s = ''WATCH'' \<and> urgency s = ''THIS_WEEK''
           \<and> suggested_position_size s = ''QUARTER''))
   \<and> sorted_wrt (\<lambda>a b. total_score b \<le> total_score a) (generate_signals ts hist cutoff)
   \<and> (\<forall>k. filter (\<lambda>s. total_score s = k) (generate_signals ts hist cutoff)
          = filter (\<lambda>s. total_score s = k)
              (signals_loop hist (detect_clusters hist cutoff) ts {}))"
proof (intro conjI ballI allI)
  fix s
  assume "s \<in> set (generate_signals ts hist cutoff)"
  then have "s \<in> set (signals_loop hist (detect_clusters hist cutoff) ts {})"
    by (simp add: set_generate_signals)
  from signals_loop_origin [OF this] obtain i where
    i: "score_trade hist (detect_clusters hist cutoff) (ts ! i) = Some s" by blast
  note tier = score_trade_tier [OF i]
  from tier show "40 \<le> total_score s" by blast
  from tier show "80 \<le> total_score s \<longrightarrow>
           recommendation s = ''STRONG BUY'' \<and> urgency s = ''IMMEDIATE''
           \<and> suggested_position_size s = ''FULL''" by blast
  from tier show "65 \<le> total_score s \<and> total_score s < 80 \<longrightarrow>
           recommendation s = ''BUY'' \<and> urgency s = ''TODAY''
           \<and> suggested_position_size s = ''HALF''" by blast
  from tier show "40 \<le> total_score s \<and> total_score s < 65 \<longrightarrow>
           recommendation s = ''WATCH'' \<and> urgency s = ''THIS_WEEK''
           \<and> suggested_position_size s = ''QUARTER''" by blast
next
  have "sorted (map (\<lambda>x. - total_score x) (generate_signals ts hist cutoff))"
    by (simp add: generate_signals_def sort_reverse_def Let_def)
  then show "sorted_wrt (\<lambda>a b. total_score b \<le> total_score a) (generate_signals ts hist cutoff)"
    by (simp add: sorted_wrt_map)
next
  fix k
  have "filter (\<lambda>s. - total_score s = - k) (generate_signals ts hist cutoff)
      = filter (\<lambda>s. - total_score s = - k)
          (signals_loop hist (detect_clusters hist cutoff) ts {})"
    unfolding generate_signals_def sort_reverse_def Let_def by (rule sort_key_stable)
  then show "filter (\<lambda>s. total_score s = k) (generate_signals ts hist cutoff)
      = filter (\<lambda>s. total_score s = k) (signals_loop hist (detect_clusters hist cutoff) ts {})"
    by simp
qed

theorem generate_signals_tiers_sorted_witness:
  "map (\<lambda>s. (symbol (trade s), total_score s, recommendation s, urgency s,
               suggested_position_size s))
       (generate_signals tier_batch cluster_history (Date 2026 10 4))
     = [(''NVDA'', 406 / 5, ''STRONG BUY'', ''IMMEDIATE'', ''FULL''),
        (''MSFT'', 326 / 5, ''BUY'', ''TODAY'', ''HALF''),
        (''AMD'', 326 / 5, ''BUY'', ''TODAY'', ''HALF''),
        (''AAPL'', 276 / 5, ''WATCH'', ''THIS_WEEK'', ''QUARTER'')]
   \<and> 40 \<le> total_score (generate_signals tier_batch cluster_history (Date 2026 10 4) ! 3)
   \<and> recommendation (generate_signals tier_batch cluster_history (Date 2026 10 4) ! 0)
       = ''STRONG BUY''
   \<and> recommendation (generate_signals tier_batch cluster_history (Date 2026 10 4) ! 1)
       = ''BUY''
   \<and> recommendation (generate_signals tier_batch cluster_history (Date 2026 10 4) ! 3)
       = ''WATCH''
   \<and> sorted_wrt (\<lambda>a b. total_score b \<le> total_score a)
        (generate_signals tier_batch cluster_history (Date 2026 10 4))
   \<and> filter (\<lambda>s. total_score s = 326 / 5)
        (generate_signals tier_batch cluster_history (Date 2026 10 4))
     = filter (\<lambda>s. total_score s = 326 / 5)
         (signals_loop cluster_history (detect_clusters cluster_history (Date 2026 10 4))
            tier_batch {})"
proof -
  let ?gs = "generate_signals tier_batch cluster_history (Date 2026 10 4)"
  have e: "map (\<lambda>s. (symbol (trade s), total_score s, recommendation s, urgency s,
               suggested_position_size s)) ?gs
     = [(''NVDA'', 406 / 5, ''STRONG BUY'', ''IMMEDIATE'', ''FULL''),
        (''MSFT'', 326 / 5, ''BUY'', ''TODAY'', ''HALF''),
        (''AMD'', 326 / 5, ''BUY'', ''TODAY'', ''HALF''),
        (''AAPL'', 276 / 5, ''WATCH'', ''THIS_WEEK'', ''QUARTER'')]"
    by code_simp
  from e have "length (map (\<lambda>s. (symbol (trade s), total_score s, recommendation s, urgency s,
               suggested_position_size s)) ?gs) = 4"
    by (simp only: list.size length_Cons)
  then have l: "length ?gs = 4" by (simp only: length_map)
  have n: "(symbol (trade (?gs ! i)), total_score (?gs ! i), recommendation (?gs ! i),
            urgency (?gs ! i), suggested_position_size (?gs ! i))
      = [(''NVDA'', 406 / 5, ''STRONG BUY'', ''IMMEDIATE'', ''FULL''),
        (''MSFT'', 326 / 5, ''BUY'', ''TODAY'', ''HALF''),
        (''AMD'', 326 / 5, ''BUY'', ''TODAY'', ''HALF''),
        (''AAPL'', 276 / 5, ''WATCH'', ''THIS_WEEK'', ''QUARTER'')] ! i" if "i < 4" for i
    using nth_map [of i ?gs "\<lambda>s. (symbol (trade s), total_score s, recommendation s, urgency s,
               suggested_position_size s)"] that unfolding l e by simp
  have v: "total_score (?gs ! 0) = 406 / 5" "total_score (?gs ! 1) = 326 / 5"
    "total_score (?gs ! 3) = 276 / 5"
    using n [of 0] n [of 1] n [of 3] by simp_all
  have m: "?gs ! 0 \<in> set ?gs" "?gs ! 1 \<in> set ?gs" "?gs ! 3 \<in> set ?gs"
    using l by (simp_all only: nth_mem)
  note t = generate_signals_tiers_sorted [of tier_batch cluster_history "Date 2026 10 4"]
  note t1 = t [THEN conjunct1, THEN bspec]
  from t1 [OF m(3)] have a: "40 \<le> total_score (?gs ! 3)" by (rule conjunct1)
  from t1 [OF m(1)] have "80 \<le> total_score (?gs ! 0) \<longrightarrow>
      recommendation (?gs ! 0) = ''STRONG BUY'' \<and> urgency (?gs ! 0) = ''IMMEDIATE''
      \<and> suggested_position_size (?gs ! 0) = ''FULL''"
    by (elim conjE)
  then have b: "recommendation (?gs ! 0) = ''STRONG BUY''" unfolding v by simp
  from t1 [OF m(2)] have "65 \<le> total_score (?gs ! 1) \<and> total_score (?gs ! 1) < 80 \<longrightarrow>
      recommendation (?gs ! 1) = ''BUY'' \<and> urgency (?gs ! 1) = ''TODAY''
      \<and> suggested_position_size (?gs ! 1) = ''HALF''"
    by (elim conjE)
  then have c: "recommendation (?gs ! 1) = ''BUY''" unfolding v by simp
  from t1 [OF m(3)] have "40 \<le> total_score (?gs ! 3) \<and> total_score (?gs ! 3) < 65 \<longrightarrow>
      recommendation (?gs ! 3) = ''WATCH'' \<and> urgency (?gs ! 3) = ''THIS_WEEK''
      \<and> suggested_position_size (?gs ! 3) = ''QUARTER''"
    by (elim conjE)
  then have d: "recommendation (?gs ! 3) = ''WATCH''" unfolding v by simp
  from t have s: "sorted_wrt (\<lambda>a b. total_score b \<le> total_score a) ?gs" by (elim conjE)
  from t have "\<forall>k. filter (\<lambda>s. total_score s = k) ?gs
      = filter (\<lambda>s. total_score s = k)
          (signals_loop cluster_history (detect_clusters cluster_history (Date 2026 10 4))
             tier_batch {})"
    by (elim conjE)
  then have f: "filter (\<lambda>s. total_score s = 326 / 5) ?gs
      = filter (\<lambda>s. total_score s = 326 / 5)
          (signals_loop cluster_history (detect_clusters cluster_history (Date 2026 10 4))
             tier_batch {})"
    by (rule spec)
  from e a b c d s f show ?thesis by (intro conjI)
qed

end
